theory Spec2Isabelle
  imports Main "HOL-Library.Word" "HOL-Library.Signed_Division"
begin

unbundle bit_operations_syntax

section \<open>Shared data\<close>

text \<open>
  Go's \<open>uint64\<close> and \<open>int32\<close> are words of that width; byte slices and Go strings
  are lists of 8-bit characters.
\<close>

type_synonym u64 = "64 word"
type_synonym i32 = "32 word"
type_synonym bytes = string

text \<open>
  The errors the modelled functions return. \<open>JsonError\<close> and \<open>HookError\<close> carry the
  errors of \<open>encoding/json\<close> and of the hooks (crypto, storage, blockchain), which are
  never one of the host's own error values. A Go panic is a value too:
  \<open>ErrDivideByZero\<close>, \<open>ErrIndexOutOfRange\<close> and \<open>ErrNilDereference\<close>.
\<close>

datatype error =
    ErrInitFuncCalledInRun
  | ErrCallBackFuncCalledInRun
  | ErrCallBackFuncNotExpected
  | ErrNotEnoughGas
  | ErrInputAndOutputGasDoesNotMatch
  | ErrReturnCodeNotOk
  | ErrDivideByZero
  | ErrIndexOutOfRange
  | ErrNilDereference
  | JsonError string
  | HookError string

datatype CallType = DirectCall | AsynchronousCall | AsynchronousCallBack

section \<open>The metering context (vmhost/contexts/metering.go)\<close>

record OutputTransfer =
  GasLimit :: u64
  GasLocked :: u64

record OutputAccount =
  GasUsed :: u64
  OutputTransfers :: "OutputTransfer list"


text \<open>
  What the metering context reaches through its \<open>host\<close> pointer: the points used
  of the runtime (\<open>host.Runtime().GetPointsUsed()\<close> and \<open>SetPointsUsed\<close>) and the
  output accounts (\<open>host.Output().GetOutputAccounts()\<close>).
\<close>

record meteringHost =
  pointsUsed :: u64
  outputAccounts :: "(bytes \<times> OutputAccount) list"

text \<open>
  The fields of \<open>meteringContext\<close> that the functions below read or write. The gas
  tracer is kept abstract (\<open>'t\<close>); its \<open>AddToCurrentTrace\<close> is a parameter.
\<close>

record 't meteringContext =
  host :: meteringHost
  initialGasProvided :: u64
  initialCost :: u64
  gasForExecution :: u64
  gasTracer :: 't


definition GetPointsUsed :: "'t meteringContext \<Rightarrow> u64" where
  "GetPointsUsed context = pointsUsed (host context)"

definition SetPointsUsed :: "u64 \<Rightarrow> 't meteringContext \<Rightarrow> 't meteringContext" where
  "SetPointsUsed gasUsed context =
     context\<lparr>host := (host context)\<lparr>pointsUsed := gasUsed\<rparr>\<rparr>"

definition UseGas :: "(u64 \<Rightarrow> u64 \<Rightarrow> u64) \<Rightarrow> u64 \<Rightarrow> 't meteringContext \<Rightarrow> 't meteringContext" where
  "UseGas add gas context = SetPointsUsed (add (GetPointsUsed context) gas) context"

definition GasLeft :: "'t meteringContext \<Rightarrow> u64" where
  "GasLeft context =
     (let gasProvided = gasForExecution context;
          gasUsed = GetPointsUsed context
      in if gasProvided < gasUsed then 0 else gasProvided - gasUsed)"


definition traceGas :: "(u64 \<Rightarrow> 't \<Rightarrow> 't) \<Rightarrow> u64 \<Rightarrow> 't meteringContext \<Rightarrow> 't meteringContext" where
  "traceGas AddToCurrentTrace usedGas context =
     context\<lparr>gasTracer := AddToCurrentTrace usedGas (gasTracer context)\<rparr>"

definition UseGasBounded ::
  "(u64 \<Rightarrow> u64 \<Rightarrow> u64) \<Rightarrow> (u64 \<Rightarrow> 't \<Rightarrow> 't) \<Rightarrow> u64 \<Rightarrow> 't meteringContext
     \<Rightarrow> error option \<times> 't meteringContext" where
  "UseGasBounded add AddToCurrentTrace gasToUse context =
     (if GasLeft context \<le> gasToUse then (Some ErrNotEnoughGas, context)
      else (None, traceGas AddToCurrentTrace gasToUse (UseGas add gasToUse context)))"






section \<open>The host's execution (unnamed/part_000): data\<close>

datatype AsyncCallStatus = AsyncCallPending | AsyncCallResolved | AsyncCallRejected

text \<open>
  \<open>AsyncGasLimit\<close> is the field \<open>GasLimit\<close> of \<open>AsyncGeneratedCall\<close>, and
  \<open>InitiatorCallerAddr\<close>, \<open>InitiatorReturnData\<close> are the fields \<open>CallerAddr\<close> and
  \<open>ReturnData\<close> of \<open>AsyncInitiator\<close>; the plain names are fields of other records.
\<close>

record AsyncGeneratedCall =
  Status :: AsyncCallStatus
  Destination :: bytes
  GasPercentage :: i32
  AsyncGasLimit :: u64
  SuccessCallback :: string
  ErrorCallback :: string

record AsyncContext =
  Callback :: string
  AsyncCalls :: "AsyncGeneratedCall list"

record AsyncInitiator =
  InitiatorCallerAddr :: bytes
  InitiatorReturnData :: bytes

record AsyncContextInfo = AsyncInitiator +
  AsyncContextMap :: "(string \<times> AsyncContext) list"

record VMInput =
  CallerAddr :: bytes
  CallType :: CallType
  GasProvided :: u64
  CallValue :: int
  OriginalTxHash :: bytes

record ContractCallInput = VMInput +
  RecipientAddr :: bytes
  Function :: string

text \<open>The state of the runtime context that the modelled functions read.\<close>

record runtimeState =
  vmInput :: VMInput
  scAddress :: bytes
  callFunction :: string
  asyncContextInfo :: AsyncContextInfo

section \<open>Init and callback gating\<close>

text \<open>
  Modelled from the spec: the constants \<open>arwen.InitFunctionName\<close> and
  \<open>arwen.CallBackFunctionName\<close> are not among the sources; the specification names
  the functions \<open>init\<close> and \<open>callBack\<close>. The Ethereum alias
  \<open>arwen.InitFunctionNameEth\<close> is given nowhere and is a parameter.
\<close>

definition InitFunctionName :: string where
  "InitFunctionName = ''init''"

definition CallBackFunctionName :: string where
  "CallBackFunctionName = ''callBack''"

definition isInitFunctionBeingCalled :: "string \<Rightarrow> runtimeState \<Rightarrow> bool" where
  "isInitFunctionBeingCalled InitFunctionNameEth runtime =
     (let functionName = callFunction runtime
      in functionName = InitFunctionName \<or> functionName = InitFunctionNameEth)"

definition verifyAllowedFunctionCall :: "string \<Rightarrow> runtimeState \<Rightarrow> error option" where
  "verifyAllowedFunctionCall InitFunctionNameEth runtime =
     (let functionName = callFunction runtime;
          isInit = (functionName = InitFunctionName \<or> functionName = InitFunctionNameEth)
      in if isInit then Some ErrInitFuncCalledInRun
         else
           (let isCallBack = (functionName = CallBackFunctionName);
                isInAsyncCallBack = (CallType (vmInput runtime) = AsynchronousCallBack)
            in if isCallBack \<and> \<not> isInAsyncCallBack then Some ErrCallBackFuncCalledInRun
               else None))"

section \<open>Splitting the gas among the async calls\<close>

text \<open>
  Go's \<open>/\<close> on \<open>int32\<close> truncates towards zero and panics on a zero divisor;
  \<open>uint64(x)\<close> of an \<open>int32\<close> extends the sign.
\<close>

definition int32Div :: "i32 \<Rightarrow> i32 \<Rightarrow> i32" where
  "int32Div a b = word_of_int (sint a sdiv sint b)"

definition totalPercentageOf :: "AsyncContextInfo \<Rightarrow> i32" where
  "totalPercentageOf asyncInfo =
     fold (\<lambda>(identifier, asyncContext) total.
             fold (\<lambda>asyncCall total. total + GasPercentage asyncCall) (AsyncCalls asyncContext) total)
       (AsyncContextMap asyncInfo) 0"

text \<open>
  The inner loop over the calls of one context: it sets every \<open>GasLimit\<close>, and carries
  \<open>gasAdded\<close> and \<open>lastAsyncCallIndex\<close>.
\<close>

fun setGasLimits ::
  "u64 \<Rightarrow> i32 \<Rightarrow> nat \<Rightarrow> AsyncGeneratedCall list \<Rightarrow> u64 \<times> nat
     \<Rightarrow> AsyncGeneratedCall list \<times> u64 \<times> nat" where
  "setGasLimits gasLeft totalPercentage index [] (gasAdded, lastAsyncCallIndex) =
     ([], gasAdded, lastAsyncCallIndex)"
| "setGasLimits gasLeft totalPercentage index (asyncCall # rest) (gasAdded, lastAsyncCallIndex) =
     (let gasLimit = gasLeft * scast (int32Div (GasPercentage asyncCall) totalPercentage);
          (rest', result) =
             setGasLimits gasLeft totalPercentage (Suc index) rest (gasAdded + gasLimit, index)
      in (asyncCall\<lparr>AsyncGasLimit := gasLimit\<rparr> # rest', result))"

text \<open>
  The outer loop over the contexts, which also carries \<open>lastContextIdentifier\<close>.
\<close>

fun setContextGasLimits ::
  "u64 \<Rightarrow> i32 \<Rightarrow> (string \<times> AsyncContext) list \<Rightarrow> u64 \<times> string \<times> nat
     \<Rightarrow> (string \<times> AsyncContext) list \<times> u64 \<times> string \<times> nat" where
  "setContextGasLimits gasLeft totalPercentage [] state = ([], state)"
| "setContextGasLimits gasLeft totalPercentage ((identifier, asyncContext) # rest)
       (gasAdded, lastContextIdentifier, lastAsyncCallIndex) =
     (let (calls, gasAdded', lastAsyncCallIndex') =
             setGasLimits gasLeft totalPercentage 0 (AsyncCalls asyncContext)
               (gasAdded, lastAsyncCallIndex);
          (rest', result) =
             setContextGasLimits gasLeft totalPercentage rest
               (gasAdded', identifier, lastAsyncCallIndex')
      in ((identifier, asyncContext\<lparr>AsyncCalls := calls\<rparr>) # rest', result))"

text \<open>
  \<open>AsyncContextMap[identifier].AsyncCalls[index].GasLimit += extra\<close>: an index beyond
  the list panics.
\<close>

fun addToGasLimit ::
  "string \<Rightarrow> nat \<Rightarrow> u64 \<Rightarrow> (string \<times> AsyncContext) list
     \<Rightarrow> error + (string \<times> AsyncContext) list" where
  "addToGasLimit identifier index extra [] = Inl ErrIndexOutOfRange"
| "addToGasLimit identifier index extra ((k, asyncContext) # rest) =
     (if k = identifier then
        (if index < length (AsyncCalls asyncContext) then
           Inr ((k, asyncContext\<lparr>AsyncCalls := (AsyncCalls asyncContext)
                   [index := (AsyncCalls asyncContext ! index)
                      \<lparr>AsyncGasLimit := AsyncGasLimit (AsyncCalls asyncContext ! index) + extra\<rparr>]\<rparr>) # rest)
         else Inl ErrIndexOutOfRange)
      else (case addToGasLimit identifier index extra rest of
              Inl e \<Rightarrow> Inl e
            | Inr rest' \<Rightarrow> Inr ((k, asyncContext) # rest')))"

definition setupAsyncCallsGasByPercentages ::
  "'t meteringContext \<Rightarrow> AsyncContextInfo \<Rightarrow> error + AsyncContextInfo" where
  "setupAsyncCallsGasByPercentages metering asyncInfo =
     (let gasLeft = GasLeft metering;
          totalPercentage = totalPercentageOf asyncInfo
      in if totalPercentage = 0 \<and> list_ex (\<lambda>(identifier, asyncContext). AsyncCalls asyncContext \<noteq> [])
              (AsyncContextMap asyncInfo)
         then Inl ErrDivideByZero
         else
           (let (contexts, gasAdded, lastContextIdentifier, lastAsyncCallIndex) =
                   setContextGasLimits gasLeft totalPercentage (AsyncContextMap asyncInfo) (0, [], 0)
            in if length lastContextIdentifier > 0 \<and> gasAdded < gasLeft then
                 (case addToGasLimit lastContextIdentifier lastAsyncCallIndex (gasLeft - gasAdded) contexts of
                    Inl e \<Rightarrow> Inl e
                  | Inr contexts' \<Rightarrow> Inr (asyncInfo\<lparr>AsyncContextMap := contexts'\<rparr>))
               else Inr (asyncInfo\<lparr>AsyncContextMap := contexts\<rparr>)))"

text \<open>
  The split the specification describes: \<open>gasLeft\<close> multiplied by the call's percentage
  and divided by the total of the percentages.
\<close>

definition proportionalGas :: "u64 \<Rightarrow> i32 \<Rightarrow> i32 \<Rightarrow> nat" where
  "proportionalGas gasLeft percentage totalPercentage =
     unat gasLeft * nat (sint percentage) div nat (sint totalPercentage)"

section \<open>State stacks of the contexts\<close>

text \<open>
  A context is its active state and the stack of snapshots; the last element of the list
  is the top, as in Go's \<open>append\<close>.
\<close>

record 'a stacked =
  active :: 'a
  stateStack :: "'a list"

text \<open>
  Modelled from the spec: the bigint, output, runtime and storage contexts are not among
  the sources. The specification gives their four stack operations: Push snapshots the
  current state; PopSetActive discards the current state and restores the snapshot;
  PopMergeActive keeps the current state and absorbs the snapshot underneath (output
  only); PopDiscard drops the snapshot and keeps the current state. On an empty stack
  the pops do nothing, as in \<open>meteringContext\<close> and as the runtime context's tests
  require. How the output context merges two states (\<open>mergeVMOutputs\<close>) stays a
  parameter.
\<close>

definition PushState :: "'a stacked \<Rightarrow> 'a stacked" where
  "PushState c = c\<lparr>stateStack := stateStack c @ [active c]\<rparr>"

definition PopSetActiveState :: "'a stacked \<Rightarrow> 'a stacked" where
  "PopSetActiveState c =
     (if stateStack c = [] then c
      else c\<lparr>active := last (stateStack c), stateStack := butlast (stateStack c)\<rparr>)"

definition PopDiscard :: "'a stacked \<Rightarrow> 'a stacked" where
  "PopDiscard c =
     (if stateStack c = [] then c else c\<lparr>stateStack := butlast (stateStack c)\<rparr>)"

definition PopMergeActiveState :: "('a \<Rightarrow> 'a \<Rightarrow> 'a) \<Rightarrow> 'a stacked \<Rightarrow> 'a stacked" where
  "PopMergeActiveState mergeStates c =
     (if stateStack c = [] then c
      else c\<lparr>active := mergeStates (last (stateStack c)) (active c),
             stateStack := butlast (stateStack c)\<rparr>)"

definition onActive :: "('a \<Rightarrow> 'a) \<Rightarrow> 'a stacked \<Rightarrow> 'a stacked" where
  "onActive f c = c\<lparr>active := f (active c)\<rparr>"

text \<open>
  The host: its four stacked contexts, and \<open>otherState\<close> for everything else it owns
  (metering, blockchain, engine instances), which no state stack covers.
\<close>

record ('b, 'o, 's, 'x) vmHost =
  bigIntContext :: "'b stacked"
  outputContext :: "'o stacked"
  runtimeContext :: "runtimeState stacked"
  storageContext :: "'s stacked"
  otherState :: 'x

text \<open>
  The collaborators that are not among the sources, as parameters: methods of the four
  contexts (they act on the active state), the hooks, \<open>encoding/json\<close>, and the
  functions that run the engine. \<open>execute\<close> and \<open>processAsyncInfo\<close> run guest code
  and nested sub-calls, so here they are arbitrary transformers of the host.
  \<open>'v\<close> is the type of a \<open>VMOutput\<close> handed to the caller.
\<close>

record ('b, 'o, 's, 'x, 'v) hostEnv =
  bigIntInitState :: "'b \<Rightarrow> 'b"
  CensorVMOutput :: "'o \<Rightarrow> 'o"
  InitStateFromContractCallInput :: "ContractCallInput \<Rightarrow> runtimeState \<Rightarrow> runtimeState"
  SetAddress :: "bytes \<Rightarrow> 's \<Rightarrow> 's"
  Transfer :: "bytes \<Rightarrow> bytes \<Rightarrow> u64 \<Rightarrow> int \<Rightarrow> 'o \<Rightarrow> error option \<times> 'o"
  execute :: "ContractCallInput \<Rightarrow> ('b, 'o, 's, 'x) vmHost \<Rightarrow> error option \<times> ('b, 'o, 's, 'x) vmHost"
  processAsyncInfo :: "AsyncContextInfo \<Rightarrow> ('b, 'o, 's, 'x) vmHost \<Rightarrow> error option \<times> ('b, 'o, 's, 'x) vmHost"
  CreateVMOutputInCaseOfError :: "error \<Rightarrow> ('b, 'o, 's, 'x) vmHost \<Rightarrow> 'v \<times> 'o"
  GetVMOutput :: "('b, 'o, 's, 'x) vmHost \<Rightarrow> 'v \<times> 'o"
  mergeVMOutputs :: "'o \<Rightarrow> 'o \<Rightarrow> 'o"
  AsyncDataPrefix :: string
  CallbackDefault :: string
  CustomStorageKey :: "string \<Rightarrow> bytes \<Rightarrow> string + bytes"
  GetStorage :: "bytes \<Rightarrow> 's \<Rightarrow> bytes"
  SetStorage :: "bytes \<Rightarrow> bytes \<Rightarrow> ('b, 'o, 's, 'x) vmHost \<Rightarrow> error option \<times> ('b, 'o, 's, 'x) vmHost"
  Unmarshal :: "bytes \<Rightarrow> string + AsyncContextInfo"
  canExecuteSynchronouslyOnDest :: "bytes \<Rightarrow> ('b, 'o, 's, 'x) vmHost \<Rightarrow> bool"
  sendStorageCallbackToDestination :: "AsyncInitiator \<Rightarrow> ('b, 'o, 's, 'x) vmHost \<Rightarrow> error option \<times> ('b, 'o, 's, 'x) vmHost"
  createCallbackContractCallInput :: "'v \<Rightarrow> bytes \<Rightarrow> string \<Rightarrow> error option \<Rightarrow> ('b, 'o, 's, 'x) vmHost \<Rightarrow> error + ContractCallInput"
  processCallbackVMOutput :: "'v \<Rightarrow> error option \<Rightarrow> ('b, 'o, 's, 'x) vmHost \<Rightarrow> error option \<times> ('b, 'o, 's, 'x) vmHost"

definition setActiveOutput :: "'o \<Rightarrow> ('b, 'o, 's, 'x) vmHost \<Rightarrow> ('b, 'o, 's, 'x) vmHost" where
  "setActiveOutput outputState h = h\<lparr>outputContext := (outputContext h)\<lparr>active := outputState\<rparr>\<rparr>"

section \<open>ExecuteOnDestContext and ExecuteOnSameContext\<close>

definition finishExecuteOnDestContext ::
  "('b, 'o, 's, 'x, 'v) hostEnv \<Rightarrow> error option \<Rightarrow> ('b, 'o, 's, 'x) vmHost
     \<Rightarrow> 'v \<times> ('b, 'o, 's, 'x) vmHost" where
  "finishExecuteOnDestContext env executeErr h =
     (case executeErr of
        Some e \<Rightarrow>
          (let (vmOutput, outputState) = CreateVMOutputInCaseOfError env e h;
               h1 = setActiveOutput outputState h
           in (vmOutput,
               h1\<lparr>bigIntContext := PopSetActiveState (bigIntContext h1),
                  outputContext := PopSetActiveState (outputContext h1),
                  runtimeContext := PopSetActiveState (runtimeContext h1),
                  storageContext := PopSetActiveState (storageContext h1)\<rparr>))
      | None \<Rightarrow>
          (let (vmOutput, outputState) = GetVMOutput env h;
               h1 = setActiveOutput outputState h
           in (vmOutput,
               h1\<lparr>bigIntContext := PopSetActiveState (bigIntContext h1),
                  outputContext := PopMergeActiveState (mergeVMOutputs env) (outputContext h1),
                  runtimeContext := PopSetActiveState (runtimeContext h1),
                  storageContext := PopSetActiveState (storageContext h1)\<rparr>)))"

text \<open>
  The body of \<open>ExecuteOnDestContext\<close> up to its return: the pushes, then the value
  transfer, \<open>execute\<close> and the processing of the async info. It yields the named
  results \<open>asyncInfo\<close> and \<open>err\<close> that the deferred call reads.
\<close>

definition ExecuteOnDestContext_body ::
  "('b, 'o, 's, 'x, 'v) hostEnv \<Rightarrow> ContractCallInput \<Rightarrow> ('b, 'o, 's, 'x) vmHost
     \<Rightarrow> AsyncContextInfo option \<times> error option \<times> ('b, 'o, 's, 'x) vmHost" where
  "ExecuteOnDestContext_body env input h =
     (let bigInt = onActive (bigIntInitState env) (PushState (bigIntContext h));
          output = onActive (CensorVMOutput env) (PushState (outputContext h));
          runtime = onActive (InitStateFromContractCallInput env input) (PushState (runtimeContext h));
          storage = onActive (SetAddress env (scAddress (active runtime))) (PushState (storageContext h));
          h1 = h\<lparr>bigIntContext := bigInt, outputContext := output,
                 runtimeContext := runtime, storageContext := storage\<rparr>
      in case Transfer env (RecipientAddr input) (CallerAddr input) 0 (CallValue input)
                (active (outputContext h1)) of
           (Some e, outputState) \<Rightarrow> (None, Some e, setActiveOutput outputState h1)
         | (None, outputState) \<Rightarrow>
             (case execute env input (setActiveOutput outputState h1) of
                (Some e, h2) \<Rightarrow> (None, Some e, h2)
              | (None, h2) \<Rightarrow>
                  (let asyncInfo = asyncContextInfo (active (runtimeContext h2));
                       (err, h3) = processAsyncInfo env asyncInfo h2
                   in (Some asyncInfo, err, h3))))"

definition ExecuteOnDestContext ::
  "('b, 'o, 's, 'x, 'v) hostEnv \<Rightarrow> ContractCallInput \<Rightarrow> ('b, 'o, 's, 'x) vmHost
     \<Rightarrow> ('v \<times> AsyncContextInfo option \<times> error option) \<times> ('b, 'o, 's, 'x) vmHost" where
  "ExecuteOnDestContext env input h =
     (let (asyncInfo, err, h1) = ExecuteOnDestContext_body env input h;
          (vmOutput, h2) = finishExecuteOnDestContext env err h1
      in ((vmOutput, asyncInfo, err), h2))"

definition finishExecuteOnSameContext ::
  "error option \<Rightarrow> ('b, 'o, 's, 'x) vmHost \<Rightarrow> ('b, 'o, 's, 'x) vmHost" where
  "finishExecuteOnSameContext executeErr h =
     (case executeErr of
        Some e \<Rightarrow>
          h\<lparr>bigIntContext := PopSetActiveState (bigIntContext h),
            outputContext := PopSetActiveState (outputContext h),
            runtimeContext := PopSetActiveState (runtimeContext h)\<rparr>
      | None \<Rightarrow>
          h\<lparr>bigIntContext := PopDiscard (bigIntContext h),
            outputContext := PopDiscard (outputContext h),
            runtimeContext := PopSetActiveState (runtimeContext h)\<rparr>)"

definition ExecuteOnSameContext_body ::
  "('b, 'o, 's, 'x, 'v) hostEnv \<Rightarrow> ContractCallInput \<Rightarrow> ('b, 'o, 's, 'x) vmHost
     \<Rightarrow> AsyncContextInfo option \<times> error option \<times> ('b, 'o, 's, 'x) vmHost" where
  "ExecuteOnSameContext_body env input h =
     (let bigInt = PushState (bigIntContext h);
          output = PushState (outputContext h);
          runtime = onActive (InitStateFromContractCallInput env input) (PushState (runtimeContext h));
          h1 = h\<lparr>bigIntContext := bigInt, outputContext := output, runtimeContext := runtime\<rparr>
      in case Transfer env (RecipientAddr input) (CallerAddr input) 0 (CallValue input)
                (active (outputContext h1)) of
           (Some e, outputState) \<Rightarrow> (None, Some e, setActiveOutput outputState h1)
         | (None, outputState) \<Rightarrow>
             (case execute env input (setActiveOutput outputState h1) of
                (Some e, h2) \<Rightarrow> (None, Some e, h2)
              | (None, h2) \<Rightarrow> (Some (asyncContextInfo (active (runtimeContext h2))), None, h2)))"

definition ExecuteOnSameContext ::
  "('b, 'o, 's, 'x, 'v) hostEnv \<Rightarrow> ContractCallInput \<Rightarrow> ('b, 'o, 's, 'x) vmHost
     \<Rightarrow> (AsyncContextInfo option \<times> error option) \<times> ('b, 'o, 's, 'x) vmHost" where
  "ExecuteOnSameContext env input h =
     (let (asyncInfo, err, h1) = ExecuteOnSameContext_body env input h
      in ((asyncInfo, err), finishExecuteOnSameContext err h1))"

text \<open>
  The stack discipline of the engine-running parameters: whatever \<open>execute\<close> and
  \<open>processAsyncInfo\<close> push on a state stack they pop again, as the sub-call functions
  themselves do.
\<close>

definition stateStacks ::
  "('b, 'o, 's, 'x) vmHost \<Rightarrow> 'b list \<times> 'o list \<times> runtimeState list \<times> 's list" where
  "stateStacks h =
     (stateStack (bigIntContext h), stateStack (outputContext h),
      stateStack (runtimeContext h), stateStack (storageContext h))"

definition keepsStateStacks :: "('b, 'o, 's, 'x, 'v) hostEnv \<Rightarrow> bool" where
  "keepsStateStacks env \<longleftrightarrow>
     (\<forall>input h. stateStacks (snd (execute env input h)) = stateStacks h) \<and>
     (\<forall>asyncInfo h. stateStacks (snd (processAsyncInfo env asyncInfo h)) = stateStacks h)"

section \<open>Callbacks arriving from another shard\<close>

text \<open>
  The getter is not among the sources; the hash of the original transaction travels in
  the VM input.
\<close>

definition GetOriginalTxHash :: "runtimeState \<Rightarrow> bytes" where
  "GetOriginalTxHash runtime = OriginalTxHash (vmInput runtime)"

text \<open>
  The two nested loops of \<open>processCallbackStack\<close>. The inner one stops at the first
  call whose destination is the caller; the outer one stops once
  \<open>currentContextIdentifier\<close> is not empty.
\<close>

fun findAsyncCall :: "bytes \<Rightarrow> AsyncGeneratedCall list \<Rightarrow> nat \<Rightarrow> nat option" where
  "findAsyncCall caller [] position = None"
| "findAsyncCall caller (asyncCall # rest) position =
     (if caller = Destination asyncCall then Some position
      else findAsyncCall caller rest (Suc position))"

fun findAsyncContext ::
  "bytes \<Rightarrow> (string \<times> AsyncContext) list \<Rightarrow> nat \<times> string \<Rightarrow> nat \<times> string" where
  "findAsyncContext caller [] state = state"
| "findAsyncContext caller ((contextIdentifier, asyncContext) # rest)
       (asyncCallPosition, currentContextIdentifier) =
     (let state =
            (case findAsyncCall caller (AsyncCalls asyncContext) 0 of
               Some position \<Rightarrow> (position, contextIdentifier)
             | None \<Rightarrow> (asyncCallPosition, currentContextIdentifier))
      in if length (snd state) > 0 then state else findAsyncContext caller rest state)"

text \<open>
  What follows the erasure of the storage key: the callback of the initiator, sent to
  its shard or executed here.
\<close>

definition callInitiatorCallback ::
  "('b, 'o, 's, 'x, 'v) hostEnv \<Rightarrow> AsyncContextInfo \<Rightarrow> ('b, 'o, 's, 'x) vmHost
     \<Rightarrow> error option \<times> ('b, 'o, 's, 'x) vmHost" where
  "callInitiatorCallback env asyncInfo h =
     (if \<not> canExecuteSynchronouslyOnDest env (InitiatorCallerAddr asyncInfo) h
      then sendStorageCallbackToDestination env (AsyncInitiator.truncate asyncInfo) h
      else
        (let (vmOutput, outputState) = GetVMOutput env h;
             h1 = setActiveOutput outputState h
         in case createCallbackContractCallInput env vmOutput (InitiatorCallerAddr asyncInfo)
                   (CallbackDefault env) None h1 of
              Inl e \<Rightarrow> (Some e, h1)
            | Inr callbackCallInput \<Rightarrow>
                (let ((callbackVMOutput, asyncMap, callBackErr), h2) =
                        ExecuteOnDestContext env callbackCallInput h1
                 in processCallbackVMOutput env callbackVMOutput callBackErr h2)))"

text \<open>
  \<open>processCallbackStack\<close>. The decoder yields a well-formed \<open>AsyncContextInfo\<close>; the
  shortened \<open>currentContextCalls\<close> and the map without the resolved context are local
  values, and the only write to storage is the erasure of the key.
\<close>

definition processCallbackStack ::
  "('b, 'o, 's, 'x, 'v) hostEnv \<Rightarrow> ('b, 'o, 's, 'x) vmHost
     \<Rightarrow> error option \<times> ('b, 'o, 's, 'x) vmHost" where
  "processCallbackStack env h =
     (let runtime = active (runtimeContext h);
          storage = active (storageContext h)
      in case CustomStorageKey env (AsyncDataPrefix env) (GetOriginalTxHash runtime) of
           Inl msg \<Rightarrow> (Some (HookError msg), h)
         | Inr storageKey \<Rightarrow>
             (let buff = GetStorage env storageKey storage
              in case Unmarshal env buff of
                   Inl msg \<Rightarrow> (Some (JsonError msg), h)
                 | Inr asyncInfo \<Rightarrow>
                     (let input = vmInput runtime;
                          (asyncCallPosition, currentContextIdentifier) =
                             findAsyncContext (CallerAddr input) (AsyncContextMap asyncInfo) (0, [])
                      in if length currentContextIdentifier = 0
                         then (Some ErrCallBackFuncNotExpected, h)
                         else
                           (case map_of (AsyncContextMap asyncInfo) currentContextIdentifier of
                              None \<Rightarrow> (Some ErrNilDereference, h)
                            | Some asyncContext \<Rightarrow>
                                (let calls = AsyncCalls asyncContext
                                 in if length calls \<le> asyncCallPosition
                                    then (Some ErrIndexOutOfRange, h)
                                    else
                                      (let currentContextCalls =
                                              butlast (calls[asyncCallPosition := last calls]);
                                           contextMap =
                                              (if length currentContextCalls = 0
                                               then filter (\<lambda>(k, c). k \<noteq> currentContextIdentifier)
                                                      (AsyncContextMap asyncInfo)
                                               else AsyncContextMap asyncInfo)
                                       in if length contextMap > 0 then (None, h)
                                          else
                                            (case SetStorage env storageKey [] h of
                                               (Some e, h1) \<Rightarrow> (Some e, h1)
                                             | (None, h1) \<Rightarrow>
                                                 callInitiatorCallback env asyncInfo h1)))))))"

text \<open>
  A dispatch of an incoming callback from \<open>caller\<close>: the runtime holds the VM input of
  that callback when \<open>processCallbackStack\<close> runs; one dispatch after the other, on the
  storage the previous one left, until one returns an error.
\<close>

definition incomingCallback ::
  "('b, 'o, 's, 'x, 'v) hostEnv \<Rightarrow> bytes \<Rightarrow> ('b, 'o, 's, 'x) vmHost
     \<Rightarrow> error option \<times> ('b, 'o, 's, 'x) vmHost" where
  "incomingCallback env caller h =
     processCallbackStack env
       (h\<lparr>runtimeContext := onActive
             (\<lambda>runtime. runtime\<lparr>vmInput := (vmInput runtime)
                \<lparr>CallerAddr := caller, CallType := AsynchronousCallBack\<rparr>\<rparr>)
             (runtimeContext h)\<rparr>)"

fun incomingCallbacks ::
  "('b, 'o, 's, 'x, 'v) hostEnv \<Rightarrow> bytes list \<Rightarrow> ('b, 'o, 's, 'x) vmHost
     \<Rightarrow> error option \<times> ('b, 'o, 's, 'x) vmHost" where
  "incomingCallbacks env [] h = (None, h)"
| "incomingCallbacks env (caller # rest) h =
     (case incomingCallback env caller h of
        (Some e, h1) \<Rightarrow> (Some e, h1)
      | (None, h1) \<Rightarrow> incomingCallbacks env rest h1)"

definition storedPendingCalls ::
  "('b, 'o, 's, 'x, 'v) hostEnv \<Rightarrow> ('b, 'o, 's, 'x) vmHost \<Rightarrow> bytes" where
  "storedPendingCalls env h =
     (case CustomStorageKey env (AsyncDataPrefix env) (GetOriginalTxHash (active (runtimeContext h))) of
        Inl msg \<Rightarrow> []
      | Inr storageKey \<Rightarrow> GetStorage env storageKey (active (storageContext h)))"

text \<open>Concrete values used to evaluate the metering functions.\<close>

definition meteringOf :: "u64 \<Rightarrow> u64 \<Rightarrow> u64 \<Rightarrow> (bytes \<times> OutputAccount) list \<Rightarrow> unit meteringContext" where
  "meteringOf provided forExecution used accounts =
     \<lparr>host = \<lparr>pointsUsed = used, outputAccounts = accounts\<rparr>,
      initialGasProvided = provided, initialCost = provided - forExecution,
      gasForExecution = forExecution, gasTracer = ()\<rparr>"


text \<open>
  Concrete values used to evaluate the host's functions. In the sample environment a
  bigint state is a counter, an output state is the list of its return data and
  transfers, the storage is the bound address with the stored values (a missing key
  reads as the empty byte string), and the decoder knows one saved byte string and
  rejects everything else, the empty input included, as \<open>encoding/json\<close> does.
\<close>

type_synonym sampleStorage = "bytes \<times> (bytes \<Rightarrow> bytes)"
type_synonym sampleHost = "(nat, string list, sampleStorage, unit) vmHost"

definition asyncCallTo :: "bytes \<Rightarrow> i32 \<Rightarrow> AsyncGeneratedCall" where
  "asyncCallTo destination percentage =
     \<lparr>Status = AsyncCallPending, Destination = destination, GasPercentage = percentage,
      AsyncGasLimit = 0, SuccessCallback = ''onSuccess'', ErrorCallback = ''onError''\<rparr>"

definition asyncInfoOf :: "(string \<times> AsyncContext) list \<Rightarrow> AsyncContextInfo" where
  "asyncInfoOf contexts =
     \<lparr>InitiatorCallerAddr = ''initiator'', InitiatorReturnData = [], AsyncContextMap = contexts\<rparr>"

definition twoPendingCalls :: AsyncContextInfo where
  "twoPendingCalls =
     asyncInfoOf [(''ctx'', \<lparr>Callback = ''done'',
                     AsyncCalls = [asyncCallTo ''shardB'' 50, asyncCallTo ''shardC'' 50]\<rparr>)]"

definition onePendingCall :: AsyncContextInfo where
  "onePendingCall =
     asyncInfoOf [(''ctx'', \<lparr>Callback = ''done'', AsyncCalls = [asyncCallTo ''shardB'' 30]\<rparr>)]"

definition sampleInput :: "string \<Rightarrow> ContractCallInput" where
  "sampleInput function =
     \<lparr>CallerAddr = ''parent'', CallType = DirectCall, GasProvided = 1000, CallValue = 7,
      OriginalTxHash = ''tx1'', RecipientAddr = ''child'', Function = function\<rparr>"

definition sampleExecute :: "ContractCallInput \<Rightarrow> sampleHost \<Rightarrow> error option \<times> sampleHost" where
  "sampleExecute input h =
     (let h1 = h\<lparr>bigIntContext := onActive Suc (bigIntContext h),
                 outputContext := onActive (\<lambda>out. out @ [''data of '' @ Function input]) (outputContext h),
                 storageContext := onActive (\<lambda>(address, values). (address, values(''k'' := ''v'')))
                                     (storageContext h)\<rparr>
      in if Function input = ''fail'' then (Some ErrReturnCodeNotOk, h1) else (None, h1))"

definition sampleEnv :: "bytes \<Rightarrow> AsyncContextInfo \<Rightarrow> (nat, string list, sampleStorage, unit, string list) hostEnv" where
  "sampleEnv savedBytes savedInfo =
     \<lparr>bigIntInitState = (\<lambda>b. 0),
      CensorVMOutput = (\<lambda>out. []),
      InitStateFromContractCallInput = (\<lambda>input runtime.
         runtime\<lparr>vmInput := VMInput.truncate input, scAddress := RecipientAddr input,
                 callFunction := Function input\<rparr>),
      SetAddress = (\<lambda>address (old, values). (address, values)),
      Transfer = (\<lambda>destination sender gasLimit value out.
         if value < 0 then (Some (HookError ''negative value''), out)
         else (None, out @ [''transfer to '' @ destination])),
      execute = sampleExecute,
      processAsyncInfo = (\<lambda>asyncInfo h. (None, h)),
      CreateVMOutputInCaseOfError = (\<lambda>e h. ([''execution failed''], active (outputContext h))),
      GetVMOutput = (\<lambda>h. (active (outputContext h), active (outputContext h))),
      mergeVMOutputs = (\<lambda>previous current. previous @ current),
      AsyncDataPrefix = ''async:'',
      CallbackDefault = ''callBack'',
      CustomStorageKey = (\<lambda>prefix hash. Inr (prefix @ hash)),
      GetStorage = (\<lambda>key (address, values). values key),
      SetStorage = (\<lambda>key value h.
         (None, h\<lparr>storageContext := onActive (\<lambda>(address, values). (address, values(key := value)))
                                       (storageContext h)\<rparr>)),
      Unmarshal = (\<lambda>buff. if buff = savedBytes then Inr savedInfo
                           else Inl ''unexpected end of JSON input''),
      canExecuteSynchronouslyOnDest = (\<lambda>address h. False),
      sendStorageCallbackToDestination = (\<lambda>initiator h. (None, h)),
      createCallbackContractCallInput = (\<lambda>vmOutput destination function err h.
         Inr (sampleInput function)),
      processCallbackVMOutput = (\<lambda>vmOutput err h. (err, h))\<rparr>"

definition sampleRuntime :: runtimeState where
  "sampleRuntime =
     \<lparr>vmInput = \<lparr>CallerAddr = ''user'', CallType = DirectCall, GasProvided = 5000, CallValue = 0,
                  OriginalTxHash = ''tx1''\<rparr>,
      scAddress = ''parent'', callFunction = ''run'', asyncContextInfo = asyncInfoOf []\<rparr>"

definition sampleHostWith :: "(bytes \<Rightarrow> bytes) \<Rightarrow> sampleHost" where
  "sampleHostWith values =
     \<lparr>bigIntContext = \<lparr>active = 3, stateStack = [1]\<rparr>,
      outputContext = \<lparr>active = [''parent data''], stateStack = [[]]\<rparr>,
      runtimeContext = \<lparr>active = sampleRuntime, stateStack = [sampleRuntime]\<rparr>,
      storageContext = \<lparr>active = (''parent'', values), stateStack = [(''user'', values)]\<rparr>,
      otherState = ()\<rparr>"

definition noValues :: "bytes \<Rightarrow> bytes" where
  "noValues = (\<lambda>key. [])"

definition savedUnder :: "bytes \<Rightarrow> bytes \<Rightarrow> bytes \<Rightarrow> bytes" where
  "savedUnder key value = noValues(key := value)"

section \<open>Properties of the metering context\<close>








text \<open>
  C10. \<open>GasLeft\<close> is \<open>gasForExecution\<close> minus the runtime's points used while the
  points used do not exceed it, and exactly 0 once they do. Read as natural numbers the
  result is the truncated difference, also after \<open>UseGas\<close> has raised the points used
  above the gas for execution, whatever \<open>math.AddUint64\<close> computes, so the
  subtraction never wraps around.
\<close>

theorem GasLeft_truncated_difference:
  "(GetPointsUsed context \<le> gasForExecution context \<longrightarrow>
      GasLeft context = gasForExecution context - GetPointsUsed context) \<and>
   (gasForExecution context < GetPointsUsed context \<longrightarrow> GasLeft context = 0) \<and>
   unat (GasLeft context) = unat (gasForExecution context) - unat (GetPointsUsed context) \<and>
   GasLeft context \<le> gasForExecution context \<and>
   unat (GasLeft (UseGas add gas context))
     = unat (gasForExecution context) - unat (add (GetPointsUsed context) gas) \<and>
   (gasForExecution context < add (GetPointsUsed context) gas \<longrightarrow>
      GasLeft (UseGas add gas context) = 0)"
proof -
  have diff: "unat (GasLeft c) = unat (gasForExecution c) - unat (GetPointsUsed c)"
    for c :: "'a meteringContext"
    by (simp add: GasLeft_def Let_def word_less_nat_alt unat_sub word_le_nat_alt)
  have used: "GetPointsUsed (UseGas add gas context) = add (GetPointsUsed context) gas"
    by (simp add: UseGas_def SetPointsUsed_def GetPointsUsed_def)
  have kept: "gasForExecution (UseGas add gas context) = gasForExecution context"
    by (simp add: UseGas_def SetPointsUsed_def)
  have le: "GasLeft context \<le> gasForExecution context"
    using diff [of "context"] by (simp add: word_le_nat_alt)
  have after: "gasForExecution context < add (GetPointsUsed context) gas \<longrightarrow>
      GasLeft (UseGas add gas context) = 0"
    by (simp add: GasLeft_def Let_def used kept)
  have within: "GetPointsUsed context \<le> gasForExecution context \<longrightarrow>
      GasLeft context = gasForExecution context - GetPointsUsed context"
    by (auto simp: GasLeft_def Let_def)
  have beyond: "gasForExecution context < GetPointsUsed context \<longrightarrow> GasLeft context = 0"
    by (simp add: GasLeft_def Let_def)
  have usedDiff: "unat (GasLeft (UseGas add gas context))
     = unat (gasForExecution context) - unat (add (GetPointsUsed context) gas)"
    using diff [of "UseGas add gas context"] by (simp add: used kept)
  from within beyond diff [of "context"] le usedDiff after show ?thesis
    by blast
qed

theorem GasLeft_truncated_difference_witness:
  "GetPointsUsed (meteringOf 100 100 40 []) \<le> gasForExecution (meteringOf 100 100 40 []) \<and>
   GasLeft (meteringOf 100 100 40 []) = 60 \<and>
   gasForExecution (meteringOf 100 100 40 []) < GetPointsUsed (meteringOf 100 100 40 []) + 70 \<and>
   GasLeft (UseGas (+) 70 (meteringOf 100 100 40 [])) = 0"
  using GasLeft_truncated_difference [of "meteringOf 100 100 40 []" "(+)" 70]
  by (simp add: meteringOf_def GetPointsUsed_def)

lemma UseGasBounded_error_iff:
  "fst (UseGasBounded add AddToCurrentTrace gasToUse c) = Some ErrNotEnoughGas \<longleftrightarrow> GasLeft c \<le> gasToUse"
  by (simp add: UseGasBounded_def)

text \<open>
  C9. \<open>UseGasBounded\<close> compares with \<open>\<le>\<close>: asked for exactly the gas that is left
  (here 100 of 100), it returns \<open>ErrNotEnoughGas\<close> and consumes nothing, although the
  amount does not exceed the remaining gas.
\<close>

theorem UseGasBounded_rejects_exact_gas:
  "GasLeft (meteringOf 100 100 0 []) = 100 \<and>
   UseGasBounded (+) (\<lambda>gas tracer. tracer) 100 (meteringOf 100 100 0 [])
     = (Some ErrNotEnoughGas, meteringOf 100 100 0 [])"
  by (simp add: UseGasBounded_def GasLeft_def GetPointsUsed_def meteringOf_def)

section \<open>Properties of the sub-call protocol\<close>

lemma keeps_execute:
  "keepsStateStacks env \<Longrightarrow> execute env input x = (r, y) \<Longrightarrow> stateStacks y = stateStacks x"
  unfolding keepsStateStacks_def by (metis snd_conv)

lemma keeps_processAsyncInfo:
  "keepsStateStacks env \<Longrightarrow> processAsyncInfo env asyncInfo x = (r, y) \<Longrightarrow> stateStacks y = stateStacks x"
  unfolding keepsStateStacks_def by (metis snd_conv)

lemma stateStacks_setActiveOutput [simp]:
  "stateStacks (setActiveOutput outputState h) = stateStacks h"
  by (simp add: stateStacks_def setActiveOutput_def)

lemma PopSetActiveState_pushed:
  "stateStack c = stack @ [a] \<Longrightarrow> PopSetActiveState c = c\<lparr>active := a, stateStack := stack\<rparr>"
  by (simp add: PopSetActiveState_def)

lemma PopDiscard_pushed:
  "stateStack c = stack @ [a] \<Longrightarrow> PopDiscard c = c\<lparr>stateStack := stack\<rparr>"
  by (simp add: PopDiscard_def)

lemma PopMergeActiveState_pushed:
  "stateStack c = stack @ [a] \<Longrightarrow>
     PopMergeActiveState m c = c\<lparr>active := m a (active c), stateStack := stack\<rparr>"
  by (simp add: PopMergeActiveState_def)

lemma ExecuteOnDestContext_body_stacks:
  assumes keeps: "keepsStateStacks env"
    and body: "ExecuteOnDestContext_body env input h = (asyncInfo, err, h1)"
  shows "stateStacks h1 =
     (stateStack (bigIntContext h) @ [active (bigIntContext h)],
      stateStack (outputContext h) @ [active (outputContext h)],
      stateStack (runtimeContext h) @ [active (runtimeContext h)],
      stateStack (storageContext h) @ [active (storageContext h)])"
  using body
  unfolding ExecuteOnDestContext_body_def Let_def
  by (auto split: prod.splits option.splits
      dest!: keeps_execute [OF keeps] keeps_processAsyncInfo [OF keeps]
      simp: stateStacks_def setActiveOutput_def PushState_def onActive_def)



lemma keepsStateStacks_sampleEnv: "keepsStateStacks (sampleEnv savedBytes savedInfo)"
  by (simp add: keepsStateStacks_def sampleEnv_def sampleExecute_def stateStacks_def onActive_def Let_def)

text \<open>
  C1. When the body of \<open>ExecuteOnDestContext\<close> ends with an error (from the value
  transfer, \<open>execute\<close> or the processing of the async info), the returned
  \<open>VMOutput\<close> is the one \<open>CreateVMOutputInCaseOfError\<close> builds from that error on the
  state before any pop, and the bigint, output, runtime and storage contexts are popped
  with \<open>PopSetActiveState\<close>. If the engine-running steps keep the state stacks, the
  four contexts are then what they were before the call, stack and active state.
\<close>

theorem ExecuteOnDestContext_error_restores_contexts:
  assumes keeps: "keepsStateStacks env"
    and body: "ExecuteOnDestContext_body env input h = (asyncInfo, Some e, h1)"
  shows "fst (ExecuteOnDestContext env input h)
           = (fst (CreateVMOutputInCaseOfError env e h1), asyncInfo, Some e) \<and>
         bigIntContext (snd (ExecuteOnDestContext env input h)) = PopSetActiveState (bigIntContext h1) \<and>
         outputContext (snd (ExecuteOnDestContext env input h))
           = PopSetActiveState
               (outputContext (setActiveOutput (snd (CreateVMOutputInCaseOfError env e h1)) h1)) \<and>
         runtimeContext (snd (ExecuteOnDestContext env input h)) = PopSetActiveState (runtimeContext h1) \<and>
         storageContext (snd (ExecuteOnDestContext env input h)) = PopSetActiveState (storageContext h1) \<and>
         bigIntContext (snd (ExecuteOnDestContext env input h)) = bigIntContext h \<and>
         outputContext (snd (ExecuteOnDestContext env input h)) = outputContext h \<and>
         runtimeContext (snd (ExecuteOnDestContext env input h)) = runtimeContext h \<and>
         storageContext (snd (ExecuteOnDestContext env input h)) = storageContext h"
proof -
  obtain vmOutput outputState where c: "CreateVMOutputInCaseOfError env e h1 = (vmOutput, outputState)"
    by (cases "CreateVMOutputInCaseOfError env e h1")
  from ExecuteOnDestContext_body_stacks [OF keeps body]
  have b: "stateStack (bigIntContext h1) = stateStack (bigIntContext h) @ [active (bigIntContext h)]"
    and out: "stateStack (outputContext h1) = stateStack (outputContext h) @ [active (outputContext h)]"
    and r: "stateStack (runtimeContext h1) = stateStack (runtimeContext h) @ [active (runtimeContext h)]"
    and st: "stateStack (storageContext h1) = stateStack (storageContext h) @ [active (storageContext h)]"
    by (simp_all add: stateStacks_def)
  have run: "ExecuteOnDestContext env input h =
      ((vmOutput, asyncInfo, Some e),
       (setActiveOutput outputState h1)
         \<lparr>bigIntContext := PopSetActiveState (bigIntContext h1),
          outputContext := PopSetActiveState (outputContext (setActiveOutput outputState h1)),
          runtimeContext := PopSetActiveState (runtimeContext h1),
          storageContext := PopSetActiveState (storageContext h1)\<rparr>)"
    by (simp add: ExecuteOnDestContext_def finishExecuteOnDestContext_def body c setActiveOutput_def)
  have restoredOutput:
    "PopSetActiveState (outputContext (setActiveOutput outputState h1)) = outputContext h"
    using out by (simp add: setActiveOutput_def PopSetActiveState_def)
  show ?thesis
    by (simp add: run c restoredOutput PopSetActiveState_pushed [OF b]
        PopSetActiveState_pushed [OF r] PopSetActiveState_pushed [OF st])
qed

theorem ExecuteOnDestContext_error_restores_contexts_witness:
  "keepsStateStacks (sampleEnv [] twoPendingCalls) \<and>
   fst (snd (ExecuteOnDestContext_body (sampleEnv [] twoPendingCalls) (sampleInput ''fail'')
      (sampleHostWith noValues))) = Some ErrReturnCodeNotOk \<and>
   fst (ExecuteOnDestContext (sampleEnv [] twoPendingCalls) (sampleInput ''fail'') (sampleHostWith noValues))
      = ([''execution failed''], None, Some ErrReturnCodeNotOk) \<and>
   bigIntContext (snd (ExecuteOnDestContext (sampleEnv [] twoPendingCalls) (sampleInput ''fail'')
      (sampleHostWith noValues))) = \<lparr>active = 3, stateStack = [1]\<rparr> \<and>
   outputContext (snd (ExecuteOnDestContext (sampleEnv [] twoPendingCalls) (sampleInput ''fail'')
      (sampleHostWith noValues))) = \<lparr>active = [''parent data''], stateStack = [[]]\<rparr>"
proof -
  obtain asyncInfo err h1 where
    body: "ExecuteOnDestContext_body (sampleEnv [] twoPendingCalls) (sampleInput ''fail'')
             (sampleHostWith noValues) = (asyncInfo, err, h1)"
    by (cases "ExecuteOnDestContext_body (sampleEnv [] twoPendingCalls) (sampleInput ''fail'')
             (sampleHostWith noValues)") auto
  have failed: "err = Some ErrReturnCodeNotOk" and none: "asyncInfo = None"
    using body
    by (simp_all add: ExecuteOnDestContext_body_def sampleEnv_def sampleExecute_def sampleInput_def
        sampleHostWith_def Let_def setActiveOutput_def onActive_def PushState_def)
  have created: "fst (CreateVMOutputInCaseOfError (sampleEnv [] twoPendingCalls) ErrReturnCodeNotOk h1)
      = [''execution failed'']"
    by (simp add: sampleEnv_def)
  note restored = ExecuteOnDestContext_error_restores_contexts
                    [OF keepsStateStacks_sampleEnv body [unfolded failed]]
  from restored have result:
    "fst (ExecuteOnDestContext (sampleEnv [] twoPendingCalls) (sampleInput ''fail'') (sampleHostWith noValues))
      = ([''execution failed''], None, Some ErrReturnCodeNotOk)"
    by (simp add: created none)
  from restored have bigIntRestored:
    "bigIntContext (snd (ExecuteOnDestContext (sampleEnv [] twoPendingCalls) (sampleInput ''fail'')
      (sampleHostWith noValues))) = bigIntContext (sampleHostWith noValues)"
    by blast
  from restored have outputRestored:
    "outputContext (snd (ExecuteOnDestContext (sampleEnv [] twoPendingCalls) (sampleInput ''fail'')
      (sampleHostWith noValues))) = outputContext (sampleHostWith noValues)"
    by blast
  have before: "bigIntContext (sampleHostWith noValues) = \<lparr>active = 3, stateStack = [1]\<rparr>"
    "outputContext (sampleHostWith noValues) = \<lparr>active = [''parent data''], stateStack = [[]]\<rparr>"
    by (simp_all add: sampleHostWith_def)
  show ?thesis
    using keepsStateStacks_sampleEnv [of "[]" twoPendingCalls] result bigIntRestored outputRestored
    by (simp add: body failed before)
qed

text \<open>
  C5. When the body of \<open>ExecuteOnDestContext\<close> ends without error, the returned
  \<open>VMOutput\<close> is the one \<open>GetVMOutput\<close> extracts from the child's state before any
  pop; bigint, runtime and storage are popped with \<open>PopSetActiveState\<close> and the output
  context with \<open>PopMergeActiveState\<close>. If the engine-running steps keep the state
  stacks, bigint, runtime and storage are what they were before the call, and the output
  context has the caller's stack and, as active state, the caller's state merged with
  the child's.
\<close>

theorem ExecuteOnDestContext_success_merges_output:
  assumes keeps: "keepsStateStacks env"
    and body: "ExecuteOnDestContext_body env input h = (asyncInfo, None, h1)"
  shows "fst (ExecuteOnDestContext env input h) = (fst (GetVMOutput env h1), asyncInfo, None) \<and>
         bigIntContext (snd (ExecuteOnDestContext env input h)) = PopSetActiveState (bigIntContext h1) \<and>
         outputContext (snd (ExecuteOnDestContext env input h))
           = PopMergeActiveState (mergeVMOutputs env)
               (outputContext (setActiveOutput (snd (GetVMOutput env h1)) h1)) \<and>
         runtimeContext (snd (ExecuteOnDestContext env input h)) = PopSetActiveState (runtimeContext h1) \<and>
         storageContext (snd (ExecuteOnDestContext env input h)) = PopSetActiveState (storageContext h1) \<and>
         bigIntContext (snd (ExecuteOnDestContext env input h)) = bigIntContext h \<and>
         outputContext (snd (ExecuteOnDestContext env input h))
           = (outputContext h)\<lparr>active :=
                mergeVMOutputs env (active (outputContext h)) (snd (GetVMOutput env h1))\<rparr> \<and>
         runtimeContext (snd (ExecuteOnDestContext env input h)) = runtimeContext h \<and>
         storageContext (snd (ExecuteOnDestContext env input h)) = storageContext h"
proof -
  obtain vmOutput outputState where g: "GetVMOutput env h1 = (vmOutput, outputState)"
    by (cases "GetVMOutput env h1")
  from ExecuteOnDestContext_body_stacks [OF keeps body]
  have b: "stateStack (bigIntContext h1) = stateStack (bigIntContext h) @ [active (bigIntContext h)]"
    and out: "stateStack (outputContext h1) = stateStack (outputContext h) @ [active (outputContext h)]"
    and r: "stateStack (runtimeContext h1) = stateStack (runtimeContext h) @ [active (runtimeContext h)]"
    and st: "stateStack (storageContext h1) = stateStack (storageContext h) @ [active (storageContext h)]"
    by (simp_all add: stateStacks_def)
  have run: "ExecuteOnDestContext env input h =
      ((vmOutput, asyncInfo, None),
       (setActiveOutput outputState h1)
         \<lparr>bigIntContext := PopSetActiveState (bigIntContext h1),
          outputContext := PopMergeActiveState (mergeVMOutputs env)
                             (outputContext (setActiveOutput outputState h1)),
          runtimeContext := PopSetActiveState (runtimeContext h1),
          storageContext := PopSetActiveState (storageContext h1)\<rparr>)"
    by (simp add: ExecuteOnDestContext_def finishExecuteOnDestContext_def body g setActiveOutput_def)
  have merged:
    "PopMergeActiveState (mergeVMOutputs env) (outputContext (setActiveOutput outputState h1))
       = (outputContext h)\<lparr>active := mergeVMOutputs env (active (outputContext h)) outputState\<rparr>"
    using out by (simp add: setActiveOutput_def PopMergeActiveState_def)
  show ?thesis
    by (simp add: run g merged PopSetActiveState_pushed [OF b]
        PopSetActiveState_pushed [OF r] PopSetActiveState_pushed [OF st])
qed

theorem ExecuteOnDestContext_success_merges_output_witness:
  "keepsStateStacks (sampleEnv [] twoPendingCalls) \<and>
   fst (snd (ExecuteOnDestContext_body (sampleEnv [] twoPendingCalls) (sampleInput ''go'')
      (sampleHostWith noValues))) = None \<and>
   fst (ExecuteOnDestContext (sampleEnv [] twoPendingCalls) (sampleInput ''go'') (sampleHostWith noValues))
      = ([''transfer to child'', ''data of go''], Some (asyncInfoOf []), None) \<and>
   bigIntContext (snd (ExecuteOnDestContext (sampleEnv [] twoPendingCalls) (sampleInput ''go'')
      (sampleHostWith noValues))) = \<lparr>active = 3, stateStack = [1]\<rparr> \<and>
   outputContext (snd (ExecuteOnDestContext (sampleEnv [] twoPendingCalls) (sampleInput ''go'')
      (sampleHostWith noValues)))
      = \<lparr>active = [''parent data'', ''transfer to child'', ''data of go''], stateStack = [[]]\<rparr>"
proof -
  obtain asyncInfo err h1 where
    body: "ExecuteOnDestContext_body (sampleEnv [] twoPendingCalls) (sampleInput ''go'')
             (sampleHostWith noValues) = (asyncInfo, err, h1)"
    by (cases "ExecuteOnDestContext_body (sampleEnv [] twoPendingCalls) (sampleInput ''go'')
             (sampleHostWith noValues)") auto
  have succeeded: "err = None" and info: "asyncInfo = Some (asyncInfoOf [])"
    and child: "active (outputContext h1) = [''transfer to child'', ''data of go'']"
    using body
    by (auto simp add: ExecuteOnDestContext_body_def sampleEnv_def sampleExecute_def sampleInput_def
        sampleHostWith_def sampleRuntime_def Let_def setActiveOutput_def onActive_def PushState_def)
  have got: "GetVMOutput (sampleEnv [] twoPendingCalls) h1
      = ([''transfer to child'', ''data of go''], [''transfer to child'', ''data of go''])"
    by (simp add: sampleEnv_def child)
  note merged = ExecuteOnDestContext_success_merges_output
                  [OF keepsStateStacks_sampleEnv body [unfolded succeeded]]
  from merged have result:
    "fst (ExecuteOnDestContext (sampleEnv [] twoPendingCalls) (sampleInput ''go'') (sampleHostWith noValues))
      = ([''transfer to child'', ''data of go''], Some (asyncInfoOf []), None)"
    by (simp add: got info)
  from merged have bigIntRestored:
    "bigIntContext (snd (ExecuteOnDestContext (sampleEnv [] twoPendingCalls) (sampleInput ''go'')
      (sampleHostWith noValues))) = bigIntContext (sampleHostWith noValues)"
    by blast
  from merged have outputMerged:
    "outputContext (snd (ExecuteOnDestContext (sampleEnv [] twoPendingCalls) (sampleInput ''go'')
      (sampleHostWith noValues)))
      = (outputContext (sampleHostWith noValues))\<lparr>active :=
           mergeVMOutputs (sampleEnv [] twoPendingCalls) (active (outputContext (sampleHostWith noValues)))
             (snd (GetVMOutput (sampleEnv [] twoPendingCalls) h1))\<rparr>"
    by blast
  have before: "bigIntContext (sampleHostWith noValues) = \<lparr>active = 3, stateStack = [1]\<rparr>"
    "outputContext (sampleHostWith noValues) = \<lparr>active = [''parent data''], stateStack = [[]]\<rparr>"
    by (simp_all add: sampleHostWith_def)
  have mergeSample: "mergeVMOutputs (sampleEnv [] twoPendingCalls) = (\<lambda>previous current. previous @ current)"
    by (simp add: sampleEnv_def)
  show ?thesis
    using keepsStateStacks_sampleEnv [of "[]" twoPendingCalls] result bigIntRestored outputMerged
    by (simp add: body succeeded before got mergeSample)
qed

lemma ExecuteOnSameContext_body_stacks:
  assumes keeps: "keepsStateStacks env"
    and body: "ExecuteOnSameContext_body env input h = (asyncInfo, err, h1)"
  shows "stateStacks h1 =
     (stateStack (bigIntContext h) @ [active (bigIntContext h)],
      stateStack (outputContext h) @ [active (outputContext h)],
      stateStack (runtimeContext h) @ [active (runtimeContext h)],
      stateStack (storageContext h))"
  using body
  unfolding ExecuteOnSameContext_body_def Let_def
  by (auto split: prod.splits option.splits
      dest!: keeps_execute [OF keeps]
      simp: stateStacks_def setActiveOutput_def PushState_def onActive_def)

text \<open>
  C6. When the body of \<open>ExecuteOnSameContext\<close> ends without error, the bigint and
  output contexts are popped with \<open>PopDiscard\<close>, the runtime context with
  \<open>PopSetActiveState\<close>, and the storage context is left as the execution left it. If
  \<open>execute\<close> keeps the state stacks, bigint and output keep the child's active state on
  the caller's stack (one entry shallower than after the push), the runtime context is
  what it was before the call, and the storage stack is unchanged.
\<close>

theorem ExecuteOnSameContext_success_discards_snapshots:
  assumes keeps: "keepsStateStacks env"
    and body: "ExecuteOnSameContext_body env input h = (asyncInfo, None, h1)"
  shows "fst (ExecuteOnSameContext env input h) = (asyncInfo, None) \<and>
         bigIntContext (snd (ExecuteOnSameContext env input h)) = PopDiscard (bigIntContext h1) \<and>
         outputContext (snd (ExecuteOnSameContext env input h)) = PopDiscard (outputContext h1) \<and>
         runtimeContext (snd (ExecuteOnSameContext env input h)) = PopSetActiveState (runtimeContext h1) \<and>
         storageContext (snd (ExecuteOnSameContext env input h)) = storageContext h1 \<and>
         bigIntContext (snd (ExecuteOnSameContext env input h))
           = (bigIntContext h)\<lparr>active := active (bigIntContext h1)\<rparr> \<and>
         outputContext (snd (ExecuteOnSameContext env input h))
           = (outputContext h)\<lparr>active := active (outputContext h1)\<rparr> \<and>
         Suc (length (stateStack (bigIntContext (snd (ExecuteOnSameContext env input h)))))
           = length (stateStack (PushState (bigIntContext h))) \<and>
         Suc (length (stateStack (outputContext (snd (ExecuteOnSameContext env input h)))))
           = length (stateStack (PushState (outputContext h))) \<and>
         runtimeContext (snd (ExecuteOnSameContext env input h)) = runtimeContext h \<and>
         stateStack (storageContext (snd (ExecuteOnSameContext env input h)))
           = stateStack (storageContext h)"
proof -
  from ExecuteOnSameContext_body_stacks [OF keeps body]
  have b: "stateStack (bigIntContext h1) = stateStack (bigIntContext h) @ [active (bigIntContext h)]"
    and out: "stateStack (outputContext h1) = stateStack (outputContext h) @ [active (outputContext h)]"
    and r: "stateStack (runtimeContext h1) = stateStack (runtimeContext h) @ [active (runtimeContext h)]"
    and st: "stateStack (storageContext h1) = stateStack (storageContext h)"
    by (simp_all add: stateStacks_def)
  have run: "ExecuteOnSameContext env input h =
      ((asyncInfo, None),
       h1\<lparr>bigIntContext := PopDiscard (bigIntContext h1),
          outputContext := PopDiscard (outputContext h1),
          runtimeContext := PopSetActiveState (runtimeContext h1)\<rparr>)"
    by (simp add: ExecuteOnSameContext_def finishExecuteOnSameContext_def body)
  show ?thesis
    by (simp add: run st PopDiscard_pushed [OF b] PopDiscard_pushed [OF out]
        PopSetActiveState_pushed [OF r] PushState_def)
qed

theorem ExecuteOnSameContext_success_discards_snapshots_witness:
  "keepsStateStacks (sampleEnv [] twoPendingCalls) \<and>
   fst (snd (ExecuteOnSameContext_body (sampleEnv [] twoPendingCalls) (sampleInput ''go'')
      (sampleHostWith noValues))) = None \<and>
   bigIntContext (snd (ExecuteOnSameContext (sampleEnv [] twoPendingCalls) (sampleInput ''go'')
      (sampleHostWith noValues))) = \<lparr>active = 4, stateStack = [1]\<rparr> \<and>
   outputContext (snd (ExecuteOnSameContext (sampleEnv [] twoPendingCalls) (sampleInput ''go'')
      (sampleHostWith noValues)))
      = \<lparr>active = [''parent data'', ''transfer to child'', ''data of go''], stateStack = [[]]\<rparr> \<and>
   runtimeContext (snd (ExecuteOnSameContext (sampleEnv [] twoPendingCalls) (sampleInput ''go'')
      (sampleHostWith noValues))) = \<lparr>active = sampleRuntime, stateStack = [sampleRuntime]\<rparr>"
proof -
  obtain asyncInfo err h1 where
    body: "ExecuteOnSameContext_body (sampleEnv [] twoPendingCalls) (sampleInput ''go'')
             (sampleHostWith noValues) = (asyncInfo, err, h1)"
    by (cases "ExecuteOnSameContext_body (sampleEnv [] twoPendingCalls) (sampleInput ''go'')
             (sampleHostWith noValues)") auto
  have succeeded: "err = None"
    and childBigInt: "active (bigIntContext h1) = 4"
    and childOutput: "active (outputContext h1) = [''parent data'', ''transfer to child'', ''data of go'']"
    using body
    by (auto simp add: ExecuteOnSameContext_body_def sampleEnv_def sampleExecute_def sampleInput_def
        sampleHostWith_def sampleRuntime_def Let_def setActiveOutput_def onActive_def PushState_def)
  note discarded = ExecuteOnSameContext_success_discards_snapshots
                     [OF keepsStateStacks_sampleEnv body [unfolded succeeded]]
  from discarded have bigIntKept:
    "bigIntContext (snd (ExecuteOnSameContext (sampleEnv [] twoPendingCalls) (sampleInput ''go'')
      (sampleHostWith noValues))) = (bigIntContext (sampleHostWith noValues))\<lparr>active := active (bigIntContext h1)\<rparr>"
    by blast
  from discarded have outputKept:
    "outputContext (snd (ExecuteOnSameContext (sampleEnv [] twoPendingCalls) (sampleInput ''go'')
      (sampleHostWith noValues))) = (outputContext (sampleHostWith noValues))\<lparr>active := active (outputContext h1)\<rparr>"
    by blast
  from discarded have runtimeRestored:
    "runtimeContext (snd (ExecuteOnSameContext (sampleEnv [] twoPendingCalls) (sampleInput ''go'')
      (sampleHostWith noValues))) = runtimeContext (sampleHostWith noValues)"
    by blast
  have before: "bigIntContext (sampleHostWith noValues) = \<lparr>active = 3, stateStack = [1]\<rparr>"
    "outputContext (sampleHostWith noValues) = \<lparr>active = [''parent data''], stateStack = [[]]\<rparr>"
    "runtimeContext (sampleHostWith noValues) = \<lparr>active = sampleRuntime, stateStack = [sampleRuntime]\<rparr>"
    by (simp_all add: sampleHostWith_def)
  show ?thesis
    using keepsStateStacks_sampleEnv [of "[]" twoPendingCalls] bigIntKept outputKept runtimeRestored
    by (simp add: body succeeded before childBigInt childOutput)
qed

text \<open>
  The sub-call functions themselves keep the state stacks, on success and on failure,
  so guest code that re-enters them satisfies \<open>keepsStateStacks\<close>.
\<close>

lemma ExecuteOnDestContext_keeps_stacks:
  assumes keeps: "keepsStateStacks env"
  shows "stateStacks (snd (ExecuteOnDestContext env input h)) = stateStacks h"
proof -
  obtain asyncInfo err h1 where body: "ExecuteOnDestContext_body env input h = (asyncInfo, err, h1)"
    by (cases "ExecuteOnDestContext_body env input h") auto
  from ExecuteOnDestContext_body_stacks [OF keeps body]
  have b: "stateStack (bigIntContext h1) = stateStack (bigIntContext h) @ [active (bigIntContext h)]"
    and out: "stateStack (outputContext h1) = stateStack (outputContext h) @ [active (outputContext h)]"
    and r: "stateStack (runtimeContext h1) = stateStack (runtimeContext h) @ [active (runtimeContext h)]"
    and st: "stateStack (storageContext h1) = stateStack (storageContext h) @ [active (storageContext h)]"
    by (simp_all add: stateStacks_def)
  show ?thesis
    by (cases err)
      (simp_all add: ExecuteOnDestContext_def finishExecuteOnDestContext_def body stateStacks_def
        setActiveOutput_def PopSetActiveState_def PopMergeActiveState_def b out r st
        split: prod.splits)
qed

lemma ExecuteOnSameContext_keeps_stacks:
  assumes keeps: "keepsStateStacks env"
  shows "stateStacks (snd (ExecuteOnSameContext env input h)) = stateStacks h"
proof -
  obtain asyncInfo err h1 where body: "ExecuteOnSameContext_body env input h = (asyncInfo, err, h1)"
    by (cases "ExecuteOnSameContext_body env input h") auto
  from ExecuteOnSameContext_body_stacks [OF keeps body]
  have b: "stateStack (bigIntContext h1) = stateStack (bigIntContext h) @ [active (bigIntContext h)]"
    and out: "stateStack (outputContext h1) = stateStack (outputContext h) @ [active (outputContext h)]"
    and r: "stateStack (runtimeContext h1) = stateStack (runtimeContext h) @ [active (runtimeContext h)]"
    and st: "stateStack (storageContext h1) = stateStack (storageContext h)"
    by (simp_all add: stateStacks_def)
  show ?thesis
    by (cases err)
      (simp_all add: ExecuteOnSameContext_def finishExecuteOnSameContext_def body stateStacks_def
        PopSetActiveState_def PopDiscard_def b out r st)
qed

section \<open>Properties of the gating, the gas split and the callbacks\<close>

text \<open>
  C7. \<open>verifyAllowedFunctionCall\<close> returns \<open>ErrInitFuncCalledInRun\<close> when the function
  is the init function or its Ethereum alias, \<open>ErrCallBackFuncCalledInRun\<close> when the
  function is \<open>callBack\<close> and the call type is not \<open>AsynchronousCallBack\<close>, and no
  error in every other case; \<open>execute\<close> rejects the same init names. The alias is
  a name other than \<open>callBack\<close>.
\<close>

theorem verifyAllowedFunctionCall_gating:
  assumes "InitFunctionNameEth \<noteq> CallBackFunctionName"
  shows "(callFunction runtime = InitFunctionName \<or> callFunction runtime = InitFunctionNameEth \<longrightarrow>
            verifyAllowedFunctionCall InitFunctionNameEth runtime = Some ErrInitFuncCalledInRun) \<and>
         (callFunction runtime = CallBackFunctionName \<and>
            CallType (vmInput runtime) \<noteq> AsynchronousCallBack \<longrightarrow>
            verifyAllowedFunctionCall InitFunctionNameEth runtime = Some ErrCallBackFuncCalledInRun) \<and>
         (\<not> (callFunction runtime = InitFunctionName \<or> callFunction runtime = InitFunctionNameEth) \<and>
          \<not> (callFunction runtime = CallBackFunctionName \<and>
               CallType (vmInput runtime) \<noteq> AsynchronousCallBack) \<longrightarrow>
            verifyAllowedFunctionCall InitFunctionNameEth runtime = None) \<and>
         (isInitFunctionBeingCalled InitFunctionNameEth runtime \<longleftrightarrow>
            verifyAllowedFunctionCall InitFunctionNameEth runtime = Some ErrInitFuncCalledInRun)"
  using assms
  by (auto simp: verifyAllowedFunctionCall_def isInitFunctionBeingCalled_def Let_def
      InitFunctionName_def CallBackFunctionName_def)

theorem verifyAllowedFunctionCall_gating_witness:
  "''solidity.ctor'' \<noteq> CallBackFunctionName \<and>
   verifyAllowedFunctionCall ''solidity.ctor'' (sampleRuntime\<lparr>callFunction := ''init''\<rparr>)
     = Some ErrInitFuncCalledInRun \<and>
   verifyAllowedFunctionCall ''solidity.ctor'' (sampleRuntime\<lparr>callFunction := ''solidity.ctor''\<rparr>)
     = Some ErrInitFuncCalledInRun \<and>
   verifyAllowedFunctionCall ''solidity.ctor'' (sampleRuntime\<lparr>callFunction := ''callBack''\<rparr>)
     = Some ErrCallBackFuncCalledInRun \<and>
   verifyAllowedFunctionCall ''solidity.ctor'' sampleRuntime = None"
proof -
  have distinct: "''solidity.ctor'' \<noteq> CallBackFunctionName"
    by (simp add: CallBackFunctionName_def)
  show ?thesis
    using verifyAllowedFunctionCall_gating [OF distinct, of "sampleRuntime\<lparr>callFunction := ''init''\<rparr>"]
          verifyAllowedFunctionCall_gating [OF distinct, of "sampleRuntime\<lparr>callFunction := ''solidity.ctor''\<rparr>"]
          verifyAllowedFunctionCall_gating [OF distinct, of "sampleRuntime\<lparr>callFunction := ''callBack''\<rparr>"]
          verifyAllowedFunctionCall_gating [OF distinct, of sampleRuntime]
    by (simp add: InitFunctionName_def CallBackFunctionName_def sampleRuntime_def)
qed

text \<open>
  C4. With 1000 gas left and two async calls of 50 percent each, the integer division
  \<open>GasPercentage / totalPercentage\<close> is 0 for both, so both get a \<open>GasLimit\<close> of 0
  and the whole 1000 is then added to the last call as remainder; the proportional
  share of each is 500.
\<close>

theorem setupAsyncCallsGasByPercentages_truncates_shares:
  "setupAsyncCallsGasByPercentages (meteringOf 1000 1000 0 []) twoPendingCalls
     = Inr (asyncInfoOf [(''ctx'', \<lparr>Callback = ''done'',
              AsyncCalls = [(asyncCallTo ''shardB'' 50)\<lparr>AsyncGasLimit := 0\<rparr>,
                            (asyncCallTo ''shardC'' 50)\<lparr>AsyncGasLimit := 1000\<rparr>]\<rparr>)]) \<and>
   totalPercentageOf twoPendingCalls = 100 \<and>
   proportionalGas (GasLeft (meteringOf 1000 1000 0 [])) 50 100 = 500"
  by (simp add: setupAsyncCallsGasByPercentages_def totalPercentageOf_def twoPendingCalls_def
      asyncInfoOf_def asyncCallTo_def meteringOf_def GasLeft_def GetPointsUsed_def int32Div_def
      signed_divide_int_def proportionalGas_def Let_def)

lemma int32Div_self: "p \<noteq> 0 \<Longrightarrow> int32Div p p = 1"
proof -
  assume "p \<noteq> 0"
  then have "sint p \<noteq> 0" by (simp add: signed_eq_0_iff)
  then have "sint p sdiv sint p = 1" by (auto simp: signed_divide_int_def sgn_if)
  then show ?thesis by (simp add: int32Div_def)
qed

lemma single_async_call_gets_all_gas:
  assumes "GasPercentage asyncCall \<noteq> 0"
  shows "setupAsyncCallsGasByPercentages metering
           (asyncInfo\<lparr>AsyncContextMap := [(identifier, asyncContext\<lparr>AsyncCalls := [asyncCall]\<rparr>)]\<rparr>)
         = Inr (asyncInfo\<lparr>AsyncContextMap :=
                  [(identifier, asyncContext\<lparr>AsyncCalls := [asyncCall\<lparr>AsyncGasLimit := GasLeft metering\<rparr>]\<rparr>)]\<rparr>)"
  using assms
  by (simp add: setupAsyncCallsGasByPercentages_def totalPercentageOf_def int32Div_self Let_def)

lemma findAsyncCall_no_match:
  "\<forall>asyncCall \<in> set calls. Destination asyncCall \<noteq> caller \<Longrightarrow> findAsyncCall caller calls position = None"
  by (induction calls arbitrary: position) auto

lemma findAsyncContext_no_match:
  "\<forall>(identifier, asyncContext) \<in> set contexts.
      \<forall>asyncCall \<in> set (AsyncCalls asyncContext). Destination asyncCall \<noteq> caller \<Longrightarrow>
   findAsyncContext caller contexts (position, []) = (position, [])"
proof (induction contexts)
  case Nil
  then show ?case by simp
next
  case (Cons p contexts)
  obtain k c where p: "p = (k, c)" by (cases p)
  from Cons.prems p have "findAsyncCall caller (AsyncCalls c) 0 = None"
    by (intro findAsyncCall_no_match) auto
  with Cons p show ?case by simp
qed

text \<open>
  C8, as the code has it. When the stored bytes cannot be unmarshalled (a missing entry
  reads as empty bytes, which the decoder rejects), \<open>processCallbackStack\<close> returns the
  decoder's error and leaves the host as it is; when they decode to an info in which no
  async call has the caller as destination, it returns \<open>ErrCallBackFuncNotExpected\<close>.
\<close>

theorem processCallbackStack_unmatched_callback:
  assumes "CustomStorageKey env (AsyncDataPrefix env) (GetOriginalTxHash (active (runtimeContext h)))
             = Inr storageKey"
  shows "(Unmarshal env (GetStorage env storageKey (active (storageContext h))) = Inl msg \<longrightarrow>
            processCallbackStack env h = (Some (JsonError msg), h)) \<and>
         (Unmarshal env (GetStorage env storageKey (active (storageContext h))) = Inr asyncInfo \<and>
          (\<forall>(identifier, asyncContext) \<in> set (AsyncContextMap asyncInfo).
             \<forall>asyncCall \<in> set (AsyncCalls asyncContext).
               Destination asyncCall \<noteq> CallerAddr (vmInput (active (runtimeContext h)))) \<longrightarrow>
            processCallbackStack env h = (Some ErrCallBackFuncNotExpected, h))"
  using assms
  by (auto simp: processCallbackStack_def Let_def findAsyncContext_no_match)

theorem processCallbackStack_unmatched_callback_witness:
  "CustomStorageKey (sampleEnv ''saved'' onePendingCall) (AsyncDataPrefix (sampleEnv ''saved'' onePendingCall))
      (GetOriginalTxHash (active (runtimeContext (sampleHostWith (savedUnder ''async:tx1'' ''saved'')))))
     = Inr ''async:tx1'' \<and>
   Unmarshal (sampleEnv ''saved'' onePendingCall)
      (GetStorage (sampleEnv ''saved'' onePendingCall) ''async:tx1''
         (active (storageContext (sampleHostWith (savedUnder ''async:tx1'' ''saved'')))))
     = Inr onePendingCall \<and>
   fst (processCallbackStack (sampleEnv ''saved'' onePendingCall)
          (sampleHostWith (savedUnder ''async:tx1'' ''saved''))) = Some ErrCallBackFuncNotExpected \<and>
   Unmarshal (sampleEnv ''saved'' onePendingCall)
      (GetStorage (sampleEnv ''saved'' onePendingCall) ''async:tx1''
         (active (storageContext (sampleHostWith noValues))))
     = Inl ''unexpected end of JSON input'' \<and>
   fst (processCallbackStack (sampleEnv ''saved'' onePendingCall) (sampleHostWith noValues))
     = Some (JsonError ''unexpected end of JSON input'')"
proof -
  have key: "CustomStorageKey (sampleEnv ''saved'' onePendingCall)
      (AsyncDataPrefix (sampleEnv ''saved'' onePendingCall))
      (GetOriginalTxHash (active (runtimeContext (sampleHostWith stored)))) = Inr ''async:tx1''"
    for stored
    by (simp add: sampleEnv_def sampleHostWith_def sampleRuntime_def GetOriginalTxHash_def)
  have stored: "Unmarshal (sampleEnv ''saved'' onePendingCall)
      (GetStorage (sampleEnv ''saved'' onePendingCall) ''async:tx1''
         (active (storageContext (sampleHostWith (savedUnder ''async:tx1'' ''saved'')))))
     = Inr onePendingCall"
    by (simp add: sampleEnv_def sampleHostWith_def savedUnder_def)
  have missing: "Unmarshal (sampleEnv ''saved'' onePendingCall)
      (GetStorage (sampleEnv ''saved'' onePendingCall) ''async:tx1''
         (active (storageContext (sampleHostWith noValues))))
     = Inl ''unexpected end of JSON input''"
    by (simp add: sampleEnv_def sampleHostWith_def noValues_def)
  have nobody: "\<forall>(identifier, asyncContext) \<in> set (AsyncContextMap onePendingCall).
      \<forall>asyncCall \<in> set (AsyncCalls asyncContext).
        Destination asyncCall
          \<noteq> CallerAddr (vmInput (active (runtimeContext (sampleHostWith (savedUnder ''async:tx1'' ''saved'')))))"
    by (simp add: onePendingCall_def asyncInfoOf_def asyncCallTo_def sampleHostWith_def sampleRuntime_def)
  show ?thesis
    using processCallbackStack_unmatched_callback [OF key, of "savedUnder ''async:tx1'' ''saved''"
            "''unexpected end of JSON input''" onePendingCall]
          processCallbackStack_unmatched_callback [OF key, of noValues
            "''unexpected end of JSON input''" onePendingCall]
          key [of "savedUnder ''async:tx1'' ''saved''"] stored missing nobody
    by simp
qed

text \<open>
  The claim C8 as stated fails: with nothing stored under the key, the result is the
  decoder's error, not \<open>ErrCallBackFuncNotExpected\<close>.
\<close>

theorem processCallbackStack_missing_info_counterexample:
  "storedPendingCalls (sampleEnv ''saved'' onePendingCall) (sampleHostWith noValues) = [] \<and>
   fst (processCallbackStack (sampleEnv ''saved'' onePendingCall) (sampleHostWith noValues))
     \<noteq> Some ErrCallBackFuncNotExpected"
  by (simp add: processCallbackStack_def storedPendingCalls_def sampleEnv_def sampleHostWith_def
      sampleRuntime_def GetOriginalTxHash_def noValues_def)

text \<open>
  C3. Two pending calls (to \<open>shardB\<close> and \<open>shardC\<close>) are saved under the key, in
  one context. \<open>processCallbackStack\<close> shortens only a local copy of the call list and
  never writes it back, so after the callbacks from both destinations have been
  processed without error the storage still holds the saved bytes: no entry has been
  removed and the key has not been erased on the second callback. A third callback,
  from \<open>shardB\<close> again, is accepted as well instead of being answered with
  \<open>ErrCallBackFuncNotExpected\<close>.
\<close>

theorem processCallbackStack_never_shrinks_stored_calls:
  "fst (incomingCallbacks (sampleEnv ''saved'' twoPendingCalls) [''shardB'', ''shardC'']
          (sampleHostWith (savedUnder ''async:tx1'' ''saved''))) = None \<and>
   storedPendingCalls (sampleEnv ''saved'' twoPendingCalls)
     (snd (incomingCallbacks (sampleEnv ''saved'' twoPendingCalls) [''shardB'', ''shardC'']
          (sampleHostWith (savedUnder ''async:tx1'' ''saved'')))) = ''saved'' \<and>
   fst (incomingCallbacks (sampleEnv ''saved'' twoPendingCalls) [''shardB'', ''shardC'', ''shardB'']
          (sampleHostWith (savedUnder ''async:tx1'' ''saved''))) = None"
  by (simp add: incomingCallback_def processCallbackStack_def storedPendingCalls_def sampleEnv_def
      sampleHostWith_def sampleRuntime_def GetOriginalTxHash_def savedUnder_def noValues_def
      twoPendingCalls_def asyncInfoOf_def asyncCallTo_def onActive_def Let_def)


text \<open>
  With a single pending call the list does become empty: the first callback erases the
  key, and a second one then gets the decoder's error for the missing entry.
\<close>

lemma processCallbackStack_after_erasure:
  "fst (incomingCallbacks (sampleEnv ''saved'' onePendingCall) [''shardB'']
          (sampleHostWith (savedUnder ''async:tx1'' ''saved''))) = None \<and>
   storedPendingCalls (sampleEnv ''saved'' onePendingCall)
     (snd (incomingCallbacks (sampleEnv ''saved'' onePendingCall) [''shardB'']
          (sampleHostWith (savedUnder ''async:tx1'' ''saved'')))) = [] \<and>
   fst (incomingCallbacks (sampleEnv ''saved'' onePendingCall) [''shardB'', ''shardB'']
          (sampleHostWith (savedUnder ''async:tx1'' ''saved'')))
     = Some (JsonError ''unexpected end of JSON input'')"
  by (simp add: incomingCallback_def processCallbackStack_def callInitiatorCallback_def
      storedPendingCalls_def sampleEnv_def sampleHostWith_def sampleRuntime_def GetOriginalTxHash_def
      savedUnder_def noValues_def onePendingCall_def asyncInfoOf_def asyncCallTo_def onActive_def Let_def)

end
